theory Spec2Isabelle
  imports Main
begin

section \<open>Go values shared by the model\<close>

text \<open>
  The Go \<open>error\<close> values that the functions of \<open>gdbserial\<close> build or pass on. A nil
  error is \<open>None\<close> of \<open>goerror option\<close>. \<open>OSError op path\<close> stands for the errors of
  the operating system calls (\<open>os.Open\<close>, \<open>os.Create\<close>, \<open>os.Pipe\<close>), \<open>ExitError\<close> for
  the error of \<open>exec.Cmd.Run\<close>, \<open>EOF\<close> for \<open>io.EOF\<close>.
\<close>

datatype goerror =
    ErrBackendUnavailable
  | ErrPerfEventParanoid int
  | ErrMalformedRRGdbCommand string string
  | OSError string string
  | ExitError int
  | EOF

text \<open>
  Indexing and slicing panic out of range in Go; \<open>None\<close> is the run-time panic.
  \<open>go_index xs i\<close> is \<open>xs[i]\<close>, \<open>go_slice_from s n\<close> is \<open>s[n:]\<close>.
\<close>

definition go_index :: "'a list \<Rightarrow> int \<Rightarrow> 'a option" where
  "go_index xs i = (if 0 \<le> i \<and> i < int (length xs) then Some (xs ! nat i) else None)"

definition go_slice_from :: "string \<Rightarrow> int \<Rightarrow> string option" where
  "go_slice_from s n = (if 0 \<le> n \<and> n \<le> int (length s) then Some (drop (nat n) s) else None)"

text \<open>\<open>strings.HasPrefix\<close>: \<open>len(s) >= len(prefix) && s[:len(prefix)] == prefix\<close>.\<close>

definition HasPrefix :: "string \<Rightarrow> string \<Rightarrow> bool" where
  "HasPrefix s pre = (length pre \<le> length s \<and> take (length pre) s = pre)"

section \<open>The gdb command line printed by rr\<close>

record rrInit =
  port :: string
  exe :: string
  err :: "goerror option"

definition rrGdbCommandPrefix :: string where
  "rrGdbCommandPrefix = ''  gdb ''"

definition rrGdbLaunchPrefix :: string where
  "rrGdbLaunchPrefix = ''Launch gdb with''"

definition targetCmd :: string where
  "targetCmd = ''target extended-remote ''"

text \<open>
  The \<open>for\<close> loop of \<open>rrParseGdbCommand\<close>, from the state \<open>(i, port)\<close> at the loop
  head. It ends in one of three ways: a run-time panic, the \<open>return\<close> inside the loop, or
  the loop condition failing with the port found so far.
\<close>

datatype loop_exit = Panicked | Returned rrInit | LoopEnd string

function rrScan :: "string \<Rightarrow> string list \<Rightarrow> nat \<Rightarrow> string \<Rightarrow> loop_exit" where
  "rrScan line flds i p =
     (if \<not> int i < int (length flds) then LoopEnd p
      else case go_index flds (int i) of
        None \<Rightarrow> Panicked
      | Some f \<Rightarrow>
          if f = ''-ex'' then
            (if int i + 1 \<ge> int (length flds) then
               Returned \<lparr>port = '''', exe = '''',
                 err = Some (ErrMalformedRRGdbCommand line ''-ex not followed by an argument'')\<rparr>
             else case go_index flds (int i + 1) of
               None \<Rightarrow> Panicked
             | Some arg \<Rightarrow>
                 if \<not> HasPrefix arg targetCmd then rrScan line flds (i + 1) p
                 else (case go_slice_from arg (int (length targetCmd)) of
                   None \<Rightarrow> Panicked
                 | Some p' \<Rightarrow> rrScan line flds (i + 1 + 1) p'))
          else if f = ''-l'' then rrScan line flds (i + 1 + 1) p
          else rrScan line flds (i + 1) p)"
  by pat_completeness auto
termination
  by (relation "measure (\<lambda>(line, flds, i, p). length flds - i)") auto

declare rrScan.simps [simp del]

text \<open>
  \<open>rrParseGdbCommand\<close>. \<open>config.SplitQuotedFields\<close> is not among the sources, so the
  tokenizer is the parameter \<open>split\<close>, called with the line and the quote character.
  \<open>None\<close> is a run-time panic.
\<close>

definition rrParseGdbCommand :: "(string \<Rightarrow> char \<Rightarrow> string list) \<Rightarrow> string \<Rightarrow> rrInit option" where
  "rrParseGdbCommand split line =
     (let flds = split line (CHR 0x27) in
      case rrScan line flds 0 '''' of
        Panicked \<Rightarrow> None
      | Returned r \<Rightarrow> Some r
      | LoopEnd p \<Rightarrow>
          if p = '''' then
            Some \<lparr>port = '''', exe = '''',
              err = Some (ErrMalformedRRGdbCommand line ''could not find -ex argument'')\<rparr>
          else (case go_index flds (int (length flds) - 1) of
            None \<Rightarrow> None
          | Some e \<Rightarrow> Some \<lparr>port = p, exe = e, err = None\<rparr>))"

text \<open>
  The loop of \<open>rrStderrParser\<close> over what \<open>rd.ReadString('\n')\<close> returns: the
  complete lines of rr's standard error, each with its newline, and then the read error
  (\<open>io.EOF\<close>). The result is the \<open>rrInit\<close> sent on \<open>initch\<close> and what is written to
  this process's standard error, in order; after the gdb command line the rest of the
  stream is copied there (\<open>io.Copy\<close>). \<open>None\<close> is a run-time panic.
\<close>

fun rrStderrParser ::
    "(string \<Rightarrow> char \<Rightarrow> string list) \<Rightarrow> string list \<Rightarrow> bool \<Rightarrow> (rrInit \<times> string list) option" where
  "rrStderrParser split [] quiet = Some (\<lparr>port = '''', exe = '''', err = Some EOF\<rparr>, [])"
| "rrStderrParser split (line # rest) quiet =
     (if HasPrefix line rrGdbCommandPrefix then
        (case go_slice_from line (int (length rrGdbCommandPrefix)) of
           None \<Rightarrow> None
         | Some l \<Rightarrow>
             (case rrParseGdbCommand split l of
                None \<Rightarrow> None
              | Some r \<Rightarrow> Some (r, rest)))
      else if HasPrefix line rrGdbLaunchPrefix then rrStderrParser split rest quiet
      else if \<not> quiet then
        (case rrStderrParser split rest quiet of
           None \<Rightarrow> None
         | Some (r, out) \<Rightarrow> Some (r, line # out))
      else rrStderrParser split rest quiet)"

subsection \<open>The tokenizer\<close>

text \<open>
  Modelled from the spec: \<open>config.SplitQuotedFields\<close> is called by
  \<open>rrParseGdbCommand\<close> and is not among the sources. The spec says of it: "Splits line
  into fields using shell-like tokenization that treats single-quoted spans as one field
  (embedded spaces preserved)". Fields are separated by white space; a quote character
  opens or closes a span inside which white space belongs to the field; the quote
  characters themselves are dropped. The theorems about the parser hold for every
  tokenizer; this one evaluates them on concrete lines.
\<close>

definition isSpace :: "char \<Rightarrow> bool" where
  "isSpace c = (c \<in> set [CHR '' '', CHR 0x09, CHR 0x0A, CHR 0x0B, CHR 0x0C, CHR 0x0D])"

fun quotedFields :: "char \<Rightarrow> string option \<Rightarrow> bool \<Rightarrow> string \<Rightarrow> string list" where
  "quotedFields q cur inq [] = (case cur of None \<Rightarrow> [] | Some w \<Rightarrow> [w])"
| "quotedFields q cur inq (c # cs) =
     (if c = q then
        quotedFields q (Some (case cur of None \<Rightarrow> [] | Some w \<Rightarrow> w)) (\<not> inq) cs
      else if inq then
        quotedFields q (Some ((case cur of None \<Rightarrow> [] | Some w \<Rightarrow> w) @ [c])) inq cs
      else if isSpace c then
        (case cur of
           None \<Rightarrow> quotedFields q None False cs
         | Some w \<Rightarrow> w # quotedFields q None False cs)
      else quotedFields q (Some ((case cur of None \<Rightarrow> [] | Some w \<Rightarrow> w) @ [c])) False cs)"

definition SplitQuotedFields :: "string \<Rightarrow> char \<Rightarrow> string list" where
  "SplitQuotedFields s q = quotedFields q None False s"

subsection \<open>The scan as a recursion on the remaining fields\<close>

text \<open>
  The same loop, read off the fields from position \<open>i\<close> on. It is used in the proofs
  only, through \<open>rrScan line flds i p = scanFrom line (drop i flds) p\<close>.
\<close>

fun scanFrom :: "string \<Rightarrow> string list \<Rightarrow> string \<Rightarrow> loop_exit" where
  "scanFrom line [] p = LoopEnd p"
| "scanFrom line (f # fs) p =
     (if f = ''-ex'' then
        (case fs of
           [] \<Rightarrow> Returned \<lparr>port = '''', exe = '''',
                   err = Some (ErrMalformedRRGdbCommand line ''-ex not followed by an argument'')\<rparr>
         | arg # rest \<Rightarrow>
             if \<not> HasPrefix arg targetCmd then scanFrom line fs p
             else scanFrom line rest (drop (length targetCmd) arg))
      else if f = ''-l'' then (case fs of [] \<Rightarrow> LoopEnd p | a # rest \<Rightarrow> scanFrom line rest p)
      else scanFrom line fs p)"

section \<open>Trace directory cleanup\<close>

text \<open>
  The part of the file system that \<open>safeRemoveAll\<close> reads and changes: the existing
  paths in directory order, each with whether it is a directory, and the paths that the
  operating system refuses to remove (permissions, a file in use). A path is an entry of
  \<open>dir\<close> when it is \<open>filepath.Join(dir, name)\<close> for a non-empty \<open>name\<close> without
  separator. \<open>FileInfo\<close> keeps the two methods of \<open>os.FileInfo\<close> that the code calls.
\<close>

record filesys =
  nodes :: "(string \<times> bool) list"
  locked :: "string list"

record FileInfo =
  Name :: string
  IsDir :: bool

definition Join :: "string \<Rightarrow> string \<Rightarrow> string" where
  "Join dir name = dir @ ''/'' @ name"

definition entryName :: "string \<Rightarrow> string \<Rightarrow> string" where
  "entryName dir path = drop (length dir + 1) path"

definition isEntry :: "string \<Rightarrow> string \<Rightarrow> bool" where
  "isEntry dir path =
     (HasPrefix path (dir @ ''/'') \<and> entryName dir path \<noteq> [] \<and>
      CHR ''/'' \<notin> set (entryName dir path))"

definition listing :: "filesys \<Rightarrow> string \<Rightarrow> FileInfo list" where
  "listing fs dir =
     map (\<lambda>n. \<lparr>Name = entryName dir (fst n), IsDir = snd n\<rparr>)
       (filter (\<lambda>n. isEntry dir (fst n)) (nodes fs))"

text \<open>\<open>os.Open\<close> fails on a path that does not exist.\<close>

definition fs_Open :: "filesys \<Rightarrow> string \<Rightarrow> goerror option" where
  "fs_Open fs path =
     (if path \<in> set (map fst (nodes fs)) then None else Some (OSError ''open'' path))"

text \<open>\<open>(*os.File).Readdir(-1)\<close> fails on a handle that is not a directory.\<close>

definition fs_Readdir :: "filesys \<Rightarrow> string \<Rightarrow> goerror + FileInfo list" where
  "fs_Readdir fs path =
     (if (path, True) \<in> set (nodes fs) then Inr (listing fs path)
      else Inl (OSError ''readdirent'' path))"

text \<open>
  \<open>os.Remove\<close> fails on a path that does not exist, on one that the system refuses to
  remove, and on a directory that still has entries; otherwise the path is gone.
\<close>

definition fs_Remove :: "filesys \<Rightarrow> string \<Rightarrow> goerror option \<times> filesys" where
  "fs_Remove fs path =
     (if path \<notin> set (map fst (nodes fs)) then (Some (OSError ''remove'' path), fs)
      else if path \<in> set (locked fs) then (Some (OSError ''remove'' path), fs)
      else if (path, True) \<in> set (nodes fs) \<and> listing fs path \<noteq> [] then
        (Some (OSError ''remove'' path), fs)
      else (None, fs\<lparr>nodes := filter (\<lambda>n. fst n \<noteq> path) (nodes fs)\<rparr>))"

text \<open>The second loop of \<open>safeRemoveAll\<close>: it returns at the first removal that fails.\<close>

fun removeEntries :: "filesys \<Rightarrow> string \<Rightarrow> FileInfo list \<Rightarrow> goerror option \<times> filesys" where
  "removeEntries fs dir [] = (None, fs)"
| "removeEntries fs dir (fi # fis) =
     (case fs_Remove fs (Join dir (Name fi)) of
        (Some e, fs') \<Rightarrow> (Some e, fs')
      | (None, fs') \<Rightarrow> removeEntries fs' dir fis)"

definition safeRemoveAll :: "filesys \<Rightarrow> string \<Rightarrow> filesys" where
  "safeRemoveAll fs dir =
     (case fs_Open fs dir of
        Some e \<Rightarrow> fs
      | None \<Rightarrow>
          (case fs_Readdir fs dir of
             Inl e \<Rightarrow> fs
           | Inr fis \<Rightarrow>
               if list_ex IsDir fis then fs
               else (case removeEntries fs dir fis of
                       (Some e, fs') \<Rightarrow> fs'
                     | (None, fs') \<Rightarrow> snd (fs_Remove fs' dir))))"

section \<open>Redirects\<close>

text \<open>
  An \<open>*os.File\<close> is one of the three standard streams of this process or a descriptor
  that \<open>os.Open\<close> or \<open>os.Create\<close> returned; nil is \<open>None\<close>.
\<close>

datatype osfile = Stdin | Stdout | Stderr | Fd nat

text \<open>
  Modelled from the spec: the declaration of \<open>proc.Redirect\<close> is not among the
  sources. The spec says: "mode discriminator plus either three borrowed handles or three
  filesystem paths (empty = default stream)"; the code reads \<open>Mode\<close>, \<open>WriterFiles[0..2]\<close>
  and \<open>Paths[0..2]\<close>.
\<close>

datatype RedirectMode = RedirectFileMode | RedirectPathMode

record Redirect =
  Mode :: RedirectMode
  WriterFiles :: "osfile option \<times> osfile option \<times> osfile option"
  Paths :: "string \<times> string \<times> string"

definition at0 :: "'a \<times> 'a \<times> 'a \<Rightarrow> 'a" where
  "at0 a = fst a"

definition at1 :: "'a \<times> 'a \<times> 'a \<Rightarrow> 'a" where
  "at1 a = fst (snd a)"

definition at2 :: "'a \<times> 'a \<times> 'a \<Rightarrow> 'a" where
  "at2 a = snd (snd a)"

text \<open>
  The descriptors of this process: which paths can be opened for reading and which can
  be created, the number of the next descriptor, and the descriptors that are open.
\<close>

record procfiles =
  can_open :: "string \<Rightarrow> bool"
  can_create :: "string \<Rightarrow> bool"
  next_fd :: nat
  opened :: "osfile list"

definition os_Open :: "procfiles \<Rightarrow> string \<Rightarrow> (osfile option \<times> goerror option) \<times> procfiles" where
  "os_Open st path =
     (if can_open st path then
        ((Some (Fd (next_fd st)), None),
         st\<lparr>next_fd := next_fd st + 1, opened := opened st @ [Fd (next_fd st)]\<rparr>)
      else ((None, Some (OSError ''open'' path)), st))"

definition os_Create :: "procfiles \<Rightarrow> string \<Rightarrow> (osfile option \<times> goerror option) \<times> procfiles" where
  "os_Create st path =
     (if can_create st path then
        ((Some (Fd (next_fd st)), None),
         st\<lparr>next_fd := next_fd st + 1, opened := opened st @ [Fd (next_fd st)]\<rparr>)
      else ((None, Some (OSError ''open'' path)), st))"

definition file_Close :: "osfile \<Rightarrow> procfiles \<Rightarrow> procfiles" where
  "file_Close f st = st\<lparr>opened := removeAll f (opened st)\<rparr>"

text \<open>
  The closure \<open>create\<close> of \<open>openRedirects\<close>. It assigns the captured variables \<open>err\<close>
  and \<open>toclose\<close>, which are passed in and returned with the process state.
\<close>

definition create ::
    "string \<Rightarrow> osfile \<Rightarrow> goerror option \<times> osfile list \<times> procfiles \<Rightarrow>
     osfile option \<times> goerror option \<times> osfile list \<times> procfiles" where
  "create path dflt v =
     (case v of (er, toclose, st) \<Rightarrow>
        if path = '''' then (Some dflt, er, toclose, st)
        else (case os_Create st path of
                ((f, er'), st') \<Rightarrow>
                  (f, er', (case f of None \<Rightarrow> toclose | Some h \<Rightarrow> toclose @ [h]), st')))"

text \<open>
  \<open>openRedirects\<close>. The returned \<open>closefn\<close> is \<open>None\<close> when the code returns nil for
  it, and \<open>Some hs\<close> when it returns the closure, \<open>hs\<close> being the contents of the
  captured \<open>toclose\<close> at the return (nothing appends to it later).
\<close>

type_synonym redirects_result =
  "osfile option \<times> osfile option \<times> osfile option \<times> osfile list option \<times> goerror option"

definition openRedirects :: "Redirect \<Rightarrow> bool \<Rightarrow> procfiles \<Rightarrow> redirects_result \<times> procfiles" where
  "openRedirects redirects quiet st =
     (if Mode redirects = RedirectFileMode then
        (let stdin = at0 (WriterFiles redirects);
             stdin = (if stdin = None then Some Stdin else stdin);
             stdout = at1 (WriterFiles redirects);
             stderr = at2 (WriterFiles redirects)
         in ((stdin, stdout, stderr, Some [], None), st))
      else
        (case (if at0 (Paths redirects) \<noteq> '''' then
                 (case os_Open st (at0 (Paths redirects)) of
                    ((f, Some e), st') \<Rightarrow> Inl (e, st')
                  | ((f, None), st') \<Rightarrow> Inr (f, (case f of None \<Rightarrow> [] | Some h \<Rightarrow> [h]), st'))
               else if quiet then Inr (Some Stdin, [], st)
               else Inr (None, [], st)) of
           Inl (e, st') \<Rightarrow> ((None, None, None, None, Some e), st')
         | Inr (stdin, toclose, st1) \<Rightarrow>
             (case create (at1 (Paths redirects)) Stdout (None, toclose, st1) of
                (stdout, Some e, toclose2, st2) \<Rightarrow> ((None, None, None, None, Some e), st2)
              | (stdout, None, toclose2, st2) \<Rightarrow>
                  (case create (at2 (Paths redirects)) Stderr (None, toclose2, st2) of
                     (stderr, Some e, toclose3, st3) \<Rightarrow> ((None, None, None, None, Some e), st3)
                   | (stderr, None, toclose3, st3) \<Rightarrow>
                       ((stdin, stdout, stderr, Some toclose3, None), st3)))))"

text \<open>
  Calling the returned \<open>closefn\<close>: calling a nil function value panics (\<open>None\<close>),
  the closure closes every file of \<open>toclose\<close>.
\<close>

definition call_closefn :: "osfile list option \<Rightarrow> procfiles \<Rightarrow> procfiles option" where
  "call_closefn closefn st =
     (case closefn of None \<Rightarrow> None | Some hs \<Rightarrow> Some (fold file_Close hs st))"

section \<open>Availability of rr\<close>

text \<open>
  \<open>strings.TrimSpace\<close> and \<open>strconv.Atoi\<close> on bytes. \<open>Atoi\<close> returns the value with
  a flag for its error: 0 on a syntax error, the nearest 64-bit integer on a range
  error.
\<close>

definition TrimSpace :: "string \<Rightarrow> string" where
  "TrimSpace s = rev (dropWhile isSpace (rev (dropWhile isSpace s)))"

definition isDigit :: "char \<Rightarrow> bool" where
  "isDigit c = ((of_char (CHR ''0'') :: int) \<le> of_char c \<and> (of_char c :: int) \<le> of_char (CHR ''9''))"

definition digitsValue :: "string \<Rightarrow> int" where
  "digitsValue ds = foldl (\<lambda>n c. 10 * n + (of_char c - of_char (CHR ''0''))) 0 ds"

definition Atoi :: "string \<Rightarrow> int \<times> bool" where
  "Atoi s =
     (let neg = (s \<noteq> [] \<and> hd s = CHR ''-'');
          ds = (if s \<noteq> [] \<and> (hd s = CHR ''-'' \<or> hd s = CHR ''+'') then tl s else s)
      in if ds = [] \<or> \<not> list_all isDigit ds then (0, True)
         else if \<not> neg \<and> digitsValue ds \<ge> 2 ^ 63 then (2 ^ 63 - 1, True)
         else if neg \<and> digitsValue ds > 2 ^ 63 then (- (2 ^ 63), True)
         else ((if neg then - digitsValue ds else digitsValue ds), False))"

text \<open>
  What \<open>checkRRAvailable\<close> reads of the system: \<open>exec.LookPath\<close> (the path found, or
  \<open>None\<close> with its error) and \<open>ioutil.ReadFile\<close> (the contents, or \<open>None\<close> with its
  error).
\<close>

record sysenv =
  LookPath :: "string \<Rightarrow> string option"
  ReadFile :: "string \<Rightarrow> string option"

definition checkRRAvailable :: "sysenv \<Rightarrow> goerror option" where
  "checkRRAvailable env =
     (case LookPath env ''rr'' of
        None \<Rightarrow> Some ErrBackendUnavailable
      | Some path \<Rightarrow>
          (case ReadFile env ''/proc/sys/kernel/perf_event_paranoid'' of
             None \<Rightarrow> None
           | Some buf \<Rightarrow>
               (let perfEventParanoid = fst (Atoi (TrimSpace buf))
                in if perfEventParanoid > 1 then Some (ErrPerfEventParanoid perfEventParanoid)
                   else None)))"

section \<open>Record, then replay\<close>

text \<open>
  \<open>Record\<close> and \<open>RecordAndReplay\<close> over a state \<open>'w\<close> of the world (processes, files).
  \<open>RecordAsync\<close> and \<open>Replay\<close> start rr and wait for it; they are parameters here: what
  \<open>RecordAsync\<close> returns is its \<open>run\<close> function and its error, \<open>Replay\<close> returns the
  target (nil is \<open>None\<close>) and its error.
\<close>

type_synonym 'w run_fn = "'w \<Rightarrow> (string \<times> goerror option) \<times> 'w"

type_synonym 'w record_async =
  "string list \<Rightarrow> string \<Rightarrow> bool \<Rightarrow> Redirect \<Rightarrow> 'w \<Rightarrow> ('w run_fn \<times> goerror option) \<times> 'w"

type_synonym ('w, 't) replay =
  "string \<Rightarrow> bool \<Rightarrow> bool \<Rightarrow> string list \<Rightarrow> 'w \<Rightarrow> ('t option \<times> goerror option) \<times> 'w"

definition Record ::
    "'w record_async \<Rightarrow> string list \<Rightarrow> string \<Rightarrow> bool \<Rightarrow> Redirect \<Rightarrow> 'w \<Rightarrow>
     (string \<times> goerror option) \<times> 'w" where
  "Record RecordAsync cmd wd quiet redirects w =
     (case RecordAsync cmd wd quiet redirects w of
        ((run, Some e), w') \<Rightarrow> (('''', Some e), w')
      | ((run, None), w') \<Rightarrow> run w')"

definition RecordAndReplay ::
    "'w record_async \<Rightarrow> ('w, 't) replay \<Rightarrow> string list \<Rightarrow> string \<Rightarrow> bool \<Rightarrow> string list \<Rightarrow>
     Redirect \<Rightarrow> 'w \<Rightarrow> ('t option \<times> string \<times> goerror option) \<times> 'w" where
  "RecordAndReplay RecordAsync Replay cmd wd quiet debugInfoDirs redirects w =
     (case Record RecordAsync cmd wd quiet redirects w of
        ((tracedir, er), w') \<Rightarrow>
          if tracedir = '''' then ((None, '''', er), w')
          else (case Replay tracedir quiet True debugInfoDirs w' of
                  ((t, er'), w'') \<Rightarrow> ((t, tracedir, er'), w'')))"

text \<open>
  A world for evaluating \<open>RecordAndReplay\<close>: the state is the log of what ran. This
  \<open>RecordAsync\<close> succeeds and its \<open>run\<close> returns the given trace directory and run
  error; this \<open>Replay\<close> succeeds and logs its arguments.
\<close>

definition demoRecordAsync :: "string \<Rightarrow> goerror option \<Rightarrow> (string list) record_async" where
  "demoRecordAsync tracedir runerr cmd wd quiet redirects w =
     ((\<lambda>w'. ((tracedir, runerr), w' @ [''rr record exits'']), None), w @ [''rr record starts''])"

definition demoReplay :: "(string list, nat) replay" where
  "demoReplay tracedir quiet deleteOnDetach debugInfoDirs w =
     ((Some 1, None),
      w @ [''rr replay '' @ tracedir @ (if deleteOnDetach then '' (delete on detach)'' else '''')])"

section \<open>Facts about the scan\<close>

lemma rrScan_scanFrom: "rrScan line flds i p = scanFrom line (drop i flds) p"
proof (induction line flds i p rule: rrScan.induct)
  case (1 line flds i p)
  show ?case
  proof (cases "i < length flds")
    case False
    then show ?thesis by (subst rrScan.simps) simp
  next
    case True
    then have d: "drop i flds = flds ! i # drop (Suc i) flds"
      by (simp add: Cons_nth_drop_Suc)
    show ?thesis
    proof (cases "Suc i < length flds")
      case False
      with True have e: "drop (Suc i) flds = []" by simp
      from True False e d 1 show ?thesis
        by (subst rrScan.simps) (simp add: go_index_def)
    next
      case s: True
      then have d2: "drop (Suc i) flds = flds ! Suc i # drop (Suc (Suc i)) flds"
        by (simp add: Cons_nth_drop_Suc)
      have n: "nat (int i + 1) = Suc i" by simp
      from True s d d2 1 show ?thesis
        apply (subst rrScan.simps)
        apply (simp add: go_index_def go_slice_from_def HasPrefix_def n)
        done
    qed
  qed
qed


lemma scanFrom_not_Panicked: "scanFrom line fs p \<noteq> Panicked"
  by (induction line fs p rule: scanFrom.induct) (auto split: list.splits)

lemma scanFrom_Returned:
  "scanFrom line fs p = Returned r \<Longrightarrow>
   r = \<lparr>port = '''', exe = '''',
         err = Some (ErrMalformedRRGdbCommand line ''-ex not followed by an argument'')\<rparr>"
proof (induction line fs p rule: scanFrom.induct)
  case (1 line p)
  then show ?case by simp
next
  case (2 line f fs p)
  show ?case
  proof (cases fs)
    case Nil
    with "2.prems" show ?thesis by (simp split: if_splits)
  next
    case (Cons a rest)
    with 2 show ?thesis by (simp split: if_splits)
  qed
qed

lemma scanFrom_port_changed:
  "scanFrom line fs p0 = LoopEnd p \<Longrightarrow> p \<noteq> p0 \<Longrightarrow> 2 \<le> length fs"
  by (induction line fs p0 rule: scanFrom.induct) (auto split: list.splits if_splits)

lemma HasPrefix_targetCmd: "HasPrefix (targetCmd @ p) targetCmd"
  by (simp add: HasPrefix_def)

lemma scanFrom_no_pair:
  "(\<forall>i. Suc i < length fs \<longrightarrow> fs ! i = ''-ex'' \<longrightarrow> \<not> HasPrefix (fs ! Suc i) targetCmd) \<Longrightarrow>
   scanFrom line fs p = LoopEnd p \<or>
   scanFrom line fs p = Returned \<lparr>port = '''', exe = '''',
         err = Some (ErrMalformedRRGdbCommand line ''-ex not followed by an argument'')\<rparr>"
proof (induction line fs p rule: scanFrom.induct)
  case (1 line p)
  then show ?case by simp
next
  case (2 line f fs p)
  have tl: "\<forall>i. Suc i < length fs \<longrightarrow> fs ! i = ''-ex'' \<longrightarrow> \<not> HasPrefix (fs ! Suc i) targetCmd"
  proof (intro allI impI)
    fix i assume a: "Suc i < length fs" "fs ! i = ''-ex''"
    from "2.prems"[rule_format, of "Suc i"] a show "\<not> HasPrefix (fs ! Suc i) targetCmd" by simp
  qed
  show ?case
  proof (cases fs)
    case Nil
    then show ?thesis by simp
  next
    case (Cons a rest)
    have tl2: "\<forall>i. Suc i < length rest \<longrightarrow> rest ! i = ''-ex'' \<longrightarrow> \<not> HasPrefix (rest ! Suc i) targetCmd"
    proof (intro allI impI)
      fix i assume a: "Suc i < length rest" "rest ! i = ''-ex''"
      from tl[rule_format, of "Suc i"] a Cons show "\<not> HasPrefix (rest ! Suc i) targetCmd" by simp
    qed
    have h0: "f = ''-ex'' \<Longrightarrow> \<not> HasPrefix a targetCmd"
      using "2.prems"[rule_format, of 0] Cons by simp
    show ?thesis
    proof (cases "f = ''-ex''")
      case True
      with h0 Cons "2.IH"(1)[OF True Cons _ tl] show ?thesis by simp
    next
      case nex: False
      show ?thesis
      proof (cases "f = ''-l''")
        case True
        with nex Cons "2.IH"(3)[OF nex True Cons tl2] show ?thesis by simp
      next
        case False
        with nex Cons "2.IH"(4)[OF nex False tl] show ?thesis by simp
      qed
    qed
  qed
qed

section \<open>The parser of the gdb command line\<close>

lemma go_index_last: "xs \<noteq> [] \<Longrightarrow> go_index xs (int (length xs) - 1) = Some (last xs)"
  by (cases xs rule: rev_cases) (simp_all add: go_index_def nat_diff_distrib' nth_append)

lemma rrParseGdbCommand_LoopEnd:
  "rrScan line (split line (CHR 0x27)) 0 '''' = LoopEnd p \<Longrightarrow> p \<noteq> '''' \<Longrightarrow>
   rrParseGdbCommand split line =
     Some \<lparr>port = p, exe = last (split line (CHR 0x27)), err = None\<rparr>"
proof -
  assume a: "rrScan line (split line (CHR 0x27)) 0 '''' = LoopEnd p" and b: "p \<noteq> ''''"
  from a b have "2 \<le> length (split line (CHR 0x27))"
    using scanFrom_port_changed[of line "split line (CHR 0x27)" "''''" p]
    by (simp add: rrScan_scanFrom)
  then have "split line (CHR 0x27) \<noteq> []" by auto
  then show ?thesis using a b
    by (simp add: rrParseGdbCommand_def go_index_last)
qed

lemma rrParseGdbCommand_cases:
  "rrParseGdbCommand split line =
     Some \<lparr>port = '''', exe = '''',
       err = Some (ErrMalformedRRGdbCommand line ''-ex not followed by an argument'')\<rparr> \<or>
   rrParseGdbCommand split line =
     Some \<lparr>port = '''', exe = '''',
       err = Some (ErrMalformedRRGdbCommand line ''could not find -ex argument'')\<rparr> \<or>
   (\<exists>p. p \<noteq> '''' \<and> 2 \<le> length (split line (CHR 0x27)) \<and>
        rrScan line (split line (CHR 0x27)) 0 '''' = LoopEnd p \<and>
        rrParseGdbCommand split line =
          Some \<lparr>port = p, exe = last (split line (CHR 0x27)), err = None\<rparr>)"
proof (cases "rrScan line (split line (CHR 0x27)) 0 ''''")
  case Panicked
  then show ?thesis using scanFrom_not_Panicked by (simp add: rrScan_scanFrom)
next
  case (Returned r)
  then have "r = \<lparr>port = '''', exe = '''',
         err = Some (ErrMalformedRRGdbCommand line ''-ex not followed by an argument'')\<rparr>"
    using scanFrom_Returned by (simp add: rrScan_scanFrom)
  with Returned show ?thesis by (simp add: rrParseGdbCommand_def)
next
  case (LoopEnd p)
  show ?thesis
  proof (cases "p = ''''")
    case True
    with LoopEnd show ?thesis by (simp add: rrParseGdbCommand_def)
  next
    case False
    from LoopEnd False have "2 \<le> length (split line (CHR 0x27))"
      using scanFrom_port_changed[of line "split line (CHR 0x27)" "''''" p]
      by (simp add: rrScan_scanFrom)
    with LoopEnd False rrParseGdbCommand_LoopEnd[where split=split and line=line, OF LoopEnd False] show ?thesis by blast
  qed
qed

subsection \<open>Concrete lines, tokenized\<close>

lemma fields_example:
  "SplitQuotedFields (''-ex 'target extended-remote 127.0.0.1:9999' -l somefile /usr/bin/true'' @ [CHR 0x0A]) (CHR 0x27) =
     [''-ex'', ''target extended-remote 127.0.0.1:9999'', ''-l'', ''somefile'', ''/usr/bin/true'']"
  by (simp add: SplitQuotedFields_def isSpace_def)

lemma fields_sysroot:
  "SplitQuotedFields ''-l 10000 -ex 'set sysroot /' /usr/bin/true'' (CHR 0x27) =
     [''-l'', ''10000'', ''-ex'', ''set sysroot /'', ''/usr/bin/true'']"
  by (simp add: SplitQuotedFields_def isSpace_def)

lemma fields_swallowed:
  "SplitQuotedFields ''-ex -l -ex 'target extended-remote 127.0.0.1:9999' /bin/true'' (CHR 0x27) =
     [''-ex'', ''-l'', ''-ex'', ''target extended-remote 127.0.0.1:9999'', ''/bin/true'']"
  by (simp add: SplitQuotedFields_def isSpace_def)

lemma fields_trailing_ex:
  "SplitQuotedFields (''-ex 'target extended-remote 127.0.0.1:9999' -l somefile -ex'' @ [CHR 0x0A]) (CHR 0x27) =
     [''-ex'', ''target extended-remote 127.0.0.1:9999'', ''-l'', ''somefile'', ''-ex'']"
  by (simp add: SplitQuotedFields_def isSpace_def)



subsection \<open>The field \<open>-ex\<close>\<close>

text \<open>
  The step of the loop at a field \<open>-ex\<close>, as the code runs it. Without a next field
  the parser returns the malformed-command error "-ex not followed by an argument". If
  the next field starts with \<open>target extended-remote \<close>, the rest of it becomes the
  port and the scan goes on two positions further, past the argument. If it does not,
  \<open>continue\<close> leaves the \<open>switch\<close> before the \<open>i++\<close> that skips the argument, and
  the scan goes on at the argument itself.
\<close>

lemma rrScan_ex_field:
  "i < length flds \<and> flds ! i = ''-ex'' \<longrightarrow>
     (\<not> Suc i < length flds \<longrightarrow>
        rrScan line flds i p =
          Returned \<lparr>port = '''', exe = '''',
            err = Some (ErrMalformedRRGdbCommand line ''-ex not followed by an argument'')\<rparr>) \<and>
     (Suc i < length flds \<and> HasPrefix (flds ! Suc i) targetCmd \<longrightarrow>
        rrScan line flds i p =
          rrScan line flds (i + 2) (drop (length targetCmd) (flds ! Suc i))) \<and>
     (Suc i < length flds \<and> \<not> HasPrefix (flds ! Suc i) targetCmd \<longrightarrow>
        rrScan line flds i p = rrScan line flds (i + 1) p)"
proof (intro impI, elim conjE)
  assume a: "i < length flds" "flds ! i = ''-ex''"
  have n: "nat (int i + 1) = Suc i" by simp
  have u: "rrScan line flds i p =
     (if int i + 1 \<ge> int (length flds) then
        Returned \<lparr>port = '''', exe = '''',
          err = Some (ErrMalformedRRGdbCommand line ''-ex not followed by an argument'')\<rparr>
      else case go_index flds (int i + 1) of
        None \<Rightarrow> Panicked
      | Some arg \<Rightarrow>
          if \<not> HasPrefix arg targetCmd then rrScan line flds (i + 1) p
          else (case go_slice_from arg (int (length targetCmd)) of
            None \<Rightarrow> Panicked
          | Some p' \<Rightarrow> rrScan line flds (i + 1 + 1) p'))"
    using a by (subst rrScan.simps) (simp add: go_index_def)
  show "(\<not> Suc i < length flds \<longrightarrow>
        rrScan line flds i p =
          Returned \<lparr>port = '''', exe = '''',
            err = Some (ErrMalformedRRGdbCommand line ''-ex not followed by an argument'')\<rparr>) \<and>
     (Suc i < length flds \<and> HasPrefix (flds ! Suc i) targetCmd \<longrightarrow>
        rrScan line flds i p =
          rrScan line flds (i + 2) (drop (length targetCmd) (flds ! Suc i))) \<and>
     (Suc i < length flds \<and> \<not> HasPrefix (flds ! Suc i) targetCmd \<longrightarrow>
        rrScan line flds i p = rrScan line flds (i + 1) p)"
    unfolding u
    by (auto simp add: go_index_def go_slice_from_def n HasPrefix_def)
qed

text \<open>
  The three cases at concrete fields: after an argument \<open>set sysroot /\<close> the scan is
  at position 1, after a matching argument at position 4, and a last field \<open>-ex\<close> is the
  error.
\<close>

lemma rrScan_ex_field_examples:
  "rrScan ''l'' [''-ex'', ''set sysroot /'', ''-ex'', ''target extended-remote 127.0.0.1:9999'', ''/bin/true''] 0 '''' =
     rrScan ''l'' [''-ex'', ''set sysroot /'', ''-ex'', ''target extended-remote 127.0.0.1:9999'', ''/bin/true''] 1 '''' \<and>
   rrScan ''l'' [''-ex'', ''set sysroot /'', ''-ex'', ''target extended-remote 127.0.0.1:9999'', ''/bin/true''] 2 '''' =
     rrScan ''l'' [''-ex'', ''set sysroot /'', ''-ex'', ''target extended-remote 127.0.0.1:9999'', ''/bin/true''] 4 ''127.0.0.1:9999'' \<and>
   rrScan ''l'' [''/bin/true'', ''-ex''] 1 '''' =
     Returned \<lparr>port = '''', exe = '''',
       err = Some (ErrMalformedRRGdbCommand ''l'' ''-ex not followed by an argument'')\<rparr>"
  using rrScan_ex_field[of 0 "[''-ex'', ''set sysroot /'', ''-ex'', ''target extended-remote 127.0.0.1:9999'', ''/bin/true'']" "''l''" "''''"]
    rrScan_ex_field[of 2 "[''-ex'', ''set sysroot /'', ''-ex'', ''target extended-remote 127.0.0.1:9999'', ''/bin/true'']" "''l''" "''''"]
    rrScan_ex_field[of 1 "[''/bin/true'', ''-ex'']" "''l''" "''''"]
  by (simp add: HasPrefix_def targetCmd_def)

text \<open>
  C2. The argument of \<open>-ex\<close> is to be consumed in all cases, so that an argument that
  does not match is never read as a flag; the matching branch and the \<open>-l\<close> branch
  ("skip argument") both do \<open>i++\<close> for it. The code does not do so in the branch of an
  argument that does not match. On the line
  \<open>-ex -l -ex 'target extended-remote 127.0.0.1:9999' /bin/true\<close> the argument \<open>-l\<close>
  of the first \<open>-ex\<close> does not match and is then read as a flag, so it swallows the
  second \<open>-ex\<close>: the scan ends with no port and the parser returns the error "could
  not find -ex argument". With the argument consumed the scan would go on at position 2,
  from where it ends with the port \<open>127.0.0.1:9999\<close>.
\<close>

theorem rrScan_ex_argument_not_skipped:
  "SplitQuotedFields ''-ex -l -ex 'target extended-remote 127.0.0.1:9999' /bin/true'' (CHR 0x27) =
     [''-ex'', ''-l'', ''-ex'', ''target extended-remote 127.0.0.1:9999'', ''/bin/true''] \<and>
   \<not> HasPrefix ''-l'' targetCmd \<and>
   rrScan ''l'' [''-ex'', ''-l'', ''-ex'', ''target extended-remote 127.0.0.1:9999'', ''/bin/true''] 0 '''' =
     LoopEnd '''' \<and>
   rrScan ''l'' [''-ex'', ''-l'', ''-ex'', ''target extended-remote 127.0.0.1:9999'', ''/bin/true''] (0 + 2) '''' =
     LoopEnd ''127.0.0.1:9999'' \<and>
   rrParseGdbCommand SplitQuotedFields ''-ex -l -ex 'target extended-remote 127.0.0.1:9999' /bin/true'' =
     Some \<lparr>port = '''', exe = '''',
       err = Some (ErrMalformedRRGdbCommand
         ''-ex -l -ex 'target extended-remote 127.0.0.1:9999' /bin/true''
         ''could not find -ex argument'')\<rparr>"
  by (simp add: rrParseGdbCommand_def fields_swallowed rrScan_scanFrom HasPrefix_def targetCmd_def)

subsection \<open>The line rr prints\<close>

text \<open>
  C4. For a line that starts with the command prefix and whose remainder is tokenized
  as \<open>-ex\<close>, \<open>target extended-remote 127.0.0.1:9999\<close>, \<open>-l\<close>, \<open>somefile\<close>
  and an executable field other than \<open>-ex\<close>, \<open>rrStderrParser\<close> sends port
  \<open>127.0.0.1:9999\<close> and that executable, and copies the rest of the stream. Whenever
  the parser succeeds, the port is not empty and the executable is the last field of the
  line.
\<close>

theorem rrStderrParser_gdb_command:
  "(HasPrefix line rrGdbCommandPrefix \<and>
    split (drop (length rrGdbCommandPrefix) line) (CHR 0x27) =
      [''-ex'', targetCmd @ ''127.0.0.1:9999'', ''-l'', ''somefile'', e] \<and> e \<noteq> ''-ex'' \<longrightarrow>
    rrStderrParser split (line # rest) quiet =
      Some (\<lparr>port = ''127.0.0.1:9999'', exe = e, err = None\<rparr>, rest)) \<and>
   (\<forall>r. rrParseGdbCommand split line = Some r \<and> err r = None \<longrightarrow>
      port r \<noteq> '''' \<and> split line (CHR 0x27) \<noteq> [] \<and> exe r = last (split line (CHR 0x27)))"
proof (rule conjI)
  show "HasPrefix line rrGdbCommandPrefix \<and>
    split (drop (length rrGdbCommandPrefix) line) (CHR 0x27) =
      [''-ex'', targetCmd @ ''127.0.0.1:9999'', ''-l'', ''somefile'', e] \<and> e \<noteq> ''-ex'' \<longrightarrow>
    rrStderrParser split (line # rest) quiet =
      Some (\<lparr>port = ''127.0.0.1:9999'', exe = e, err = None\<rparr>, rest)"
  proof (rule impI)
    assume a: "HasPrefix line rrGdbCommandPrefix \<and>
      split (drop (length rrGdbCommandPrefix) line) (CHR 0x27) =
        [''-ex'', targetCmd @ ''127.0.0.1:9999'', ''-l'', ''somefile'', e] \<and> e \<noteq> ''-ex''"
    let ?l = "drop (length rrGdbCommandPrefix) line"
    have s: "rrScan ?l (split ?l (CHR 0x27)) 0 '''' = LoopEnd ''127.0.0.1:9999''"
      using a by (simp add: rrScan_scanFrom HasPrefix_targetCmd)
    have "rrParseGdbCommand split ?l = Some \<lparr>port = ''127.0.0.1:9999'', exe = e, err = None\<rparr>"
      using rrParseGdbCommand_LoopEnd[where split=split and line="?l", OF s] a by simp
    moreover have "go_slice_from line (int (length rrGdbCommandPrefix)) = Some ?l"
      using a by (simp add: go_slice_from_def HasPrefix_def)
    ultimately show "rrStderrParser split (line # rest) quiet =
        Some (\<lparr>port = ''127.0.0.1:9999'', exe = e, err = None\<rparr>, rest)"
      using a by simp
  qed
  show "\<forall>r. rrParseGdbCommand split line = Some r \<and> err r = None \<longrightarrow>
      port r \<noteq> '''' \<and> split line (CHR 0x27) \<noteq> [] \<and> exe r = last (split line (CHR 0x27))"
  proof (intro allI impI)
    fix r assume a: "rrParseGdbCommand split line = Some r \<and> err r = None"
    from rrParseGdbCommand_cases[of split line] a
    obtain p where p: "p \<noteq> ''''" "2 \<le> length (split line (CHR 0x27))"
        "r = \<lparr>port = p, exe = last (split line (CHR 0x27)), err = None\<rparr>"
      by auto
    from p(2) have "split line (CHR 0x27) \<noteq> []" by auto
    with p show "port r \<noteq> '''' \<and> split line (CHR 0x27) \<noteq> [] \<and> exe r = last (split line (CHR 0x27))"
      by simp
  qed
qed

text \<open>C4 on the line of the spec, with the executable \<open>/usr/bin/true\<close>.\<close>

theorem rrStderrParser_gdb_command_witness:
  "rrStderrParser SplitQuotedFields
     [''  gdb -ex 'target extended-remote 127.0.0.1:9999' -l somefile /usr/bin/true'' @ [CHR 0x0A],
      ''more''] False =
     Some (\<lparr>port = ''127.0.0.1:9999'', exe = ''/usr/bin/true'', err = None\<rparr>, [''more'']) \<and>
   rrParseGdbCommand SplitQuotedFields
     (''-ex 'target extended-remote 127.0.0.1:9999' -l somefile /usr/bin/true'' @ [CHR 0x0A]) =
     Some \<lparr>port = ''127.0.0.1:9999'', exe = ''/usr/bin/true'', err = None\<rparr> \<and>
   last (SplitQuotedFields
       (''-ex 'target extended-remote 127.0.0.1:9999' -l somefile /usr/bin/true'' @ [CHR 0x0A]) (CHR 0x27)) =
     ''/usr/bin/true''"
proof -
  let ?l = "''-ex 'target extended-remote 127.0.0.1:9999' -l somefile /usr/bin/true'' @ [CHR 0x0A]"
  have p: "rrParseGdbCommand SplitQuotedFields ?l =
      Some \<lparr>port = ''127.0.0.1:9999'', exe = ''/usr/bin/true'', err = None\<rparr>"
    by (simp add: rrParseGdbCommand_def fields_example rrScan_scanFrom HasPrefix_def targetCmd_def
        go_index_def del: append.simps)
  have d: "drop (length rrGdbCommandPrefix) (''  gdb '' @ ?l) = ?l"
    by (simp add: rrGdbCommandPrefix_def)
  have h: "HasPrefix (''  gdb '' @ ?l) rrGdbCommandPrefix"
    by (simp add: HasPrefix_def rrGdbCommandPrefix_def)
  have f: "SplitQuotedFields (drop (length rrGdbCommandPrefix) (''  gdb '' @ ?l)) (CHR 0x27) =
      [''-ex'', targetCmd @ ''127.0.0.1:9999'', ''-l'', ''somefile'', ''/usr/bin/true'']"
    unfolding d by (simp only: fields_example) (simp add: targetCmd_def)
  have ne: "''/usr/bin/true'' \<noteq> ''-ex''" by simp
  have 1: "rrStderrParser SplitQuotedFields ((''  gdb '' @ ?l) # [''more'']) False =
      Some (\<lparr>port = ''127.0.0.1:9999'', exe = ''/usr/bin/true'', err = None\<rparr>, [''more''])"
    using rrStderrParser_gdb_command[of "''  gdb '' @ ?l" SplitQuotedFields "''/usr/bin/true''"
      "[''more'']" False] h f ne by blast
  have r: "err \<lparr>port = ''127.0.0.1:9999'', exe = ''/usr/bin/true'', err = None\<rparr> = None"
    "exe \<lparr>port = ''127.0.0.1:9999'', exe = ''/usr/bin/true'', err = None\<rparr> = ''/usr/bin/true''"
    by simp_all
  have 2: "last (SplitQuotedFields ?l (CHR 0x27)) = ''/usr/bin/true''"
    using rrStderrParser_gdb_command[where line="?l" and split=SplitQuotedFields] p r by metis
  from 1 2 p show ?thesis by (simp del: rrStderrParser.simps)
qed

text \<open>
  C4 as stated, for any executable field, fails when that field is \<open>-ex\<close>: the port
  was found, but the last field is read as a flag without argument and the parser
  returns the error.
\<close>

theorem rrStderrParser_gdb_command_counterexample:
  "SplitQuotedFields
     (''-ex 'target extended-remote 127.0.0.1:9999' -l somefile -ex'' @ [CHR 0x0A]) (CHR 0x27) =
     [''-ex'', ''target extended-remote 127.0.0.1:9999'', ''-l'', ''somefile'', ''-ex''] \<and>
   rrStderrParser SplitQuotedFields
     [''  gdb -ex 'target extended-remote 127.0.0.1:9999' -l somefile -ex'' @ [CHR 0x0A]] False =
     Some (\<lparr>port = '''', exe = '''',
       err = Some (ErrMalformedRRGdbCommand
         (''-ex 'target extended-remote 127.0.0.1:9999' -l somefile -ex'' @ [CHR 0x0A])
         ''-ex not followed by an argument'')\<rparr>, [])"
proof -
  let ?l = "''-ex 'target extended-remote 127.0.0.1:9999' -l somefile -ex'' @ [CHR 0x0A]"
  have p: "rrParseGdbCommand SplitQuotedFields ?l =
      Some \<lparr>port = '''', exe = '''',
       err = Some (ErrMalformedRRGdbCommand ?l ''-ex not followed by an argument'')\<rparr>"
    by (simp add: rrParseGdbCommand_def fields_trailing_ex rrScan_scanFrom HasPrefix_def targetCmd_def
        del: append.simps)
  have d: "go_slice_from (''  gdb '' @ ?l) (int (length rrGdbCommandPrefix)) = Some ?l"
    by (simp add: rrGdbCommandPrefix_def go_slice_from_def)
  have h: "HasPrefix (''  gdb '' @ ?l) rrGdbCommandPrefix"
    by (simp add: HasPrefix_def rrGdbCommandPrefix_def)
  have "rrStderrParser SplitQuotedFields [''  gdb '' @ ?l] False =
     Some (\<lparr>port = '''', exe = '''',
       err = Some (ErrMalformedRRGdbCommand ?l ''-ex not followed by an argument'')\<rparr>, [])"
    using p d h by (simp del: append.simps)
  then show ?thesis using fields_trailing_ex by (simp del: rrStderrParser.simps)
qed

subsection \<open>Lines without a port\<close>

text \<open>
  C5. If no field \<open>-ex\<close> is followed by a field that starts with
  \<open>target extended-remote \<close>, the parser returns a malformed-command error whose line
  is the parser's input; and so it does whenever the scan does not end with a port that
  is not empty. When the scan reaches the end of the fields with no port, the reason is
  "could not find -ex argument". Every error the parser returns stores its input line.
\<close>

theorem rrParseGdbCommand_malformed:
  "((\<forall>i. Suc i < length (split line (CHR 0x27)) \<longrightarrow> split line (CHR 0x27) ! i = ''-ex'' \<longrightarrow>
         \<not> HasPrefix (split line (CHR 0x27) ! Suc i) targetCmd) \<longrightarrow>
      (\<exists>reason. rrParseGdbCommand split line =
         Some \<lparr>port = '''', exe = '''', err = Some (ErrMalformedRRGdbCommand line reason)\<rparr>)) \<and>
   ((\<forall>p. rrScan line (split line (CHR 0x27)) 0 '''' = LoopEnd p \<longrightarrow> p = '''') \<longrightarrow>
      (\<exists>reason. rrParseGdbCommand split line =
         Some \<lparr>port = '''', exe = '''', err = Some (ErrMalformedRRGdbCommand line reason)\<rparr>)) \<and>
   (rrScan line (split line (CHR 0x27)) 0 '''' = LoopEnd '''' \<longrightarrow>
      rrParseGdbCommand split line =
        Some \<lparr>port = '''', exe = '''',
          err = Some (ErrMalformedRRGdbCommand line ''could not find -ex argument'')\<rparr>) \<and>
   (\<forall>r e. rrParseGdbCommand split line = Some r \<and> err r = Some e \<longrightarrow>
      (\<exists>reason. e = ErrMalformedRRGdbCommand line reason))"
proof (intro conjI)
  show "(\<forall>i. Suc i < length (split line (CHR 0x27)) \<longrightarrow> split line (CHR 0x27) ! i = ''-ex'' \<longrightarrow>
         \<not> HasPrefix (split line (CHR 0x27) ! Suc i) targetCmd) \<longrightarrow>
      (\<exists>reason. rrParseGdbCommand split line =
         Some \<lparr>port = '''', exe = '''', err = Some (ErrMalformedRRGdbCommand line reason)\<rparr>)"
  proof
    assume "\<forall>i. Suc i < length (split line (CHR 0x27)) \<longrightarrow> split line (CHR 0x27) ! i = ''-ex'' \<longrightarrow>
         \<not> HasPrefix (split line (CHR 0x27) ! Suc i) targetCmd"
    from scanFrom_no_pair[OF this, of line "''''"]
    show "\<exists>reason. rrParseGdbCommand split line =
         Some \<lparr>port = '''', exe = '''', err = Some (ErrMalformedRRGdbCommand line reason)\<rparr>"
      by (auto simp add: rrParseGdbCommand_def rrScan_scanFrom)
  qed
  show "(\<forall>p. rrScan line (split line (CHR 0x27)) 0 '''' = LoopEnd p \<longrightarrow> p = '''') \<longrightarrow>
      (\<exists>reason. rrParseGdbCommand split line =
         Some \<lparr>port = '''', exe = '''', err = Some (ErrMalformedRRGdbCommand line reason)\<rparr>)"
    using rrParseGdbCommand_cases[of split line] by auto
  show "rrScan line (split line (CHR 0x27)) 0 '''' = LoopEnd '''' \<longrightarrow>
      rrParseGdbCommand split line =
        Some \<lparr>port = '''', exe = '''',
          err = Some (ErrMalformedRRGdbCommand line ''could not find -ex argument'')\<rparr>"
    by (simp add: rrParseGdbCommand_def)
  show "\<forall>r e. rrParseGdbCommand split line = Some r \<and> err r = Some e \<longrightarrow>
      (\<exists>reason. e = ErrMalformedRRGdbCommand line reason)"
    using rrParseGdbCommand_cases[of split line] by auto
qed

text \<open>C5 on a line whose only \<open>-ex\<close> argument is \<open>set sysroot /\<close>.\<close>

theorem rrParseGdbCommand_malformed_witness:
  "rrParseGdbCommand SplitQuotedFields ''-l 10000 -ex 'set sysroot /' /usr/bin/true'' =
     Some \<lparr>port = '''', exe = '''',
       err = Some (ErrMalformedRRGdbCommand ''-l 10000 -ex 'set sysroot /' /usr/bin/true''
         ''could not find -ex argument'')\<rparr>"
proof -
  let ?l = "''-l 10000 -ex 'set sysroot /' /usr/bin/true''"
  let ?f = "[''-l'', ''10000'', ''-ex'', ''set sysroot /'', ''/usr/bin/true'']"
  have f: "SplitQuotedFields ?l (CHR 0x27) = ?f" by (rule fields_sysroot)
  have np: "\<forall>i. Suc i < length (SplitQuotedFields ?l (CHR 0x27)) \<longrightarrow>
      SplitQuotedFields ?l (CHR 0x27) ! i = ''-ex'' \<longrightarrow>
      \<not> HasPrefix (SplitQuotedFields ?l (CHR 0x27) ! Suc i) targetCmd"
    unfolding f by (auto simp add: nth_Cons' less_Suc_eq HasPrefix_def targetCmd_def)
  have s: "rrScan ?l (SplitQuotedFields ?l (CHR 0x27)) 0 '''' = LoopEnd ''''"
    unfolding f by (simp add: rrScan_scanFrom HasPrefix_def targetCmd_def)
  from rrParseGdbCommand_malformed[of SplitQuotedFields ?l] np s show ?thesis by blast
qed

subsection \<open>Several ports\<close>







subsection \<open>The last field is read in bounds\<close>

text \<open>
  C10. \<open>rrParseGdbCommand\<close> never panics, whatever the tokenizer returns: no index
  is out of range. An empty field list takes the error branch. When the parser succeeds
  the port is not empty, there are at least two fields (the \<open>-ex\<close> and its argument)
  and \<open>fields[len(fields)-1]\<close> is in range and is the executable returned.
\<close>

theorem rrParseGdbCommand_in_bounds:
  "rrParseGdbCommand split line \<noteq> None \<and>
   (split line (CHR 0x27) = [] \<longrightarrow>
      rrParseGdbCommand split line =
        Some \<lparr>port = '''', exe = '''',
          err = Some (ErrMalformedRRGdbCommand line ''could not find -ex argument'')\<rparr>) \<and>
   (\<forall>r. rrParseGdbCommand split line = Some r \<and> err r = None \<longrightarrow>
      port r \<noteq> '''' \<and> 2 \<le> length (split line (CHR 0x27)) \<and>
      go_index (split line (CHR 0x27)) (int (length (split line (CHR 0x27))) - 1) = Some (exe r))"
proof (intro conjI)
  show "rrParseGdbCommand split line \<noteq> None"
    using rrParseGdbCommand_cases[of split line] by auto
  show "split line (CHR 0x27) = [] \<longrightarrow>
      rrParseGdbCommand split line =
        Some \<lparr>port = '''', exe = '''',
          err = Some (ErrMalformedRRGdbCommand line ''could not find -ex argument'')\<rparr>"
    by (simp add: rrParseGdbCommand_def rrScan_scanFrom)
  show "\<forall>r. rrParseGdbCommand split line = Some r \<and> err r = None \<longrightarrow>
      port r \<noteq> '''' \<and> 2 \<le> length (split line (CHR 0x27)) \<and>
      go_index (split line (CHR 0x27)) (int (length (split line (CHR 0x27))) - 1) = Some (exe r)"
  proof (intro allI impI, elim conjE)
    fix r assume a: "rrParseGdbCommand split line = Some r" "err r = None"
    from rrParseGdbCommand_cases[of split line] a
    obtain p where p: "p \<noteq> ''''" "2 \<le> length (split line (CHR 0x27))"
        "r = \<lparr>port = p, exe = last (split line (CHR 0x27)), err = None\<rparr>"
      by auto
    from p(2) have "split line (CHR 0x27) \<noteq> []" by auto
    with p show "port r \<noteq> '''' \<and> 2 \<le> length (split line (CHR 0x27)) \<and>
      go_index (split line (CHR 0x27)) (int (length (split line (CHR 0x27))) - 1) = Some (exe r)"
      by (simp add: go_index_last)
  qed
qed

text \<open>C10 on the empty line and on the line of the spec.\<close>

theorem rrParseGdbCommand_in_bounds_witness:
  "rrParseGdbCommand SplitQuotedFields '''' =
     Some \<lparr>port = '''', exe = '''',
       err = Some (ErrMalformedRRGdbCommand '''' ''could not find -ex argument'')\<rparr> \<and>
   2 \<le> length (SplitQuotedFields
     (''-ex 'target extended-remote 127.0.0.1:9999' -l somefile /usr/bin/true'' @ [CHR 0x0A]) (CHR 0x27)) \<and>
   go_index (SplitQuotedFields
     (''-ex 'target extended-remote 127.0.0.1:9999' -l somefile /usr/bin/true'' @ [CHR 0x0A]) (CHR 0x27))
     (int (length (SplitQuotedFields
       (''-ex 'target extended-remote 127.0.0.1:9999' -l somefile /usr/bin/true'' @ [CHR 0x0A]) (CHR 0x27))) - 1) =
     Some ''/usr/bin/true''"
proof -
  let ?l = "''-ex 'target extended-remote 127.0.0.1:9999' -l somefile /usr/bin/true'' @ [CHR 0x0A]"
  let ?r = "\<lparr>port = ''127.0.0.1:9999'', exe = ''/usr/bin/true'', err = None\<rparr>"
  have e: "SplitQuotedFields '''' (CHR 0x27) = []"
    by (simp add: SplitQuotedFields_def)
  have p: "rrParseGdbCommand SplitQuotedFields ?l = Some ?r"
    by (simp add: rrParseGdbCommand_def fields_example rrScan_scanFrom HasPrefix_def targetCmd_def
        go_index_def del: append.simps)
  have r: "err ?r = None" "exe ?r = ''/usr/bin/true''" by simp_all
  from rrParseGdbCommand_in_bounds[of SplitQuotedFields "''''"] e
  have 1: "rrParseGdbCommand SplitQuotedFields '''' =
     Some \<lparr>port = '''', exe = '''',
       err = Some (ErrMalformedRRGdbCommand '''' ''could not find -ex argument'')\<rparr>"
    by blast
  from rrParseGdbCommand_in_bounds[of SplitQuotedFields ?l] p r
  have 2: "2 \<le> length (SplitQuotedFields ?l (CHR 0x27)) \<and>
      go_index (SplitQuotedFields ?l (CHR 0x27)) (int (length (SplitQuotedFields ?l (CHR 0x27))) - 1) =
      Some ''/usr/bin/true''"
    by metis
  from 1 2 show ?thesis by blast
qed

section \<open>Availability of rr: the result of the check\<close>

text \<open>
  C7. \<open>checkRRAvailable\<close> returns \<open>ErrBackendUnavailable\<close> exactly when \<open>rr\<close> is not
  found on the search path. When it is found, the result is \<open>ErrPerfEventParanoid n\<close>
  exactly when \<open>/proc/sys/kernel/perf_event_paranoid\<close> can be read and \<open>Atoi\<close> of its
  trimmed contents returns \<open>n\<close> with \<open>n > 1\<close>; the check succeeds when the file cannot
  be read, and in general exactly when no contents read give a value above 1.
\<close>

theorem checkRRAvailable_result:
  "(checkRRAvailable env = Some ErrBackendUnavailable \<longleftrightarrow> LookPath env ''rr'' = None) \<and>
   (LookPath env ''rr'' \<noteq> None \<longrightarrow>
      (checkRRAvailable env = Some (ErrPerfEventParanoid n) \<longleftrightarrow>
         (\<exists>buf. ReadFile env ''/proc/sys/kernel/perf_event_paranoid'' = Some buf \<and>
                fst (Atoi (TrimSpace buf)) = n \<and> 1 < n)) \<and>
      (ReadFile env ''/proc/sys/kernel/perf_event_paranoid'' = None \<longrightarrow>
         checkRRAvailable env = None) \<and>
      (checkRRAvailable env = None \<longleftrightarrow>
         (\<forall>buf. ReadFile env ''/proc/sys/kernel/perf_event_paranoid'' = Some buf \<longrightarrow>
                fst (Atoi (TrimSpace buf)) \<le> 1)))"
  by (auto simp add: checkRRAvailable_def Let_def split: option.splits)

lemma Atoi_three: "Atoi (TrimSpace [CHR ''3'', CHR 0x0A]) = (3, False)"
  by (simp add: Atoi_def TrimSpace_def isSpace_def isDigit_def digitsValue_def Let_def)

lemma Atoi_one: "Atoi (TrimSpace [CHR ''1'', CHR 0x0A]) = (1, False)"
  by (simp add: Atoi_def TrimSpace_def isSpace_def isDigit_def digitsValue_def Let_def)

text \<open>
  C7 on four systems: without rr; with rr and the level 3; with rr and the level 1; with
  rr and no such file.
\<close>

theorem checkRRAvailable_result_witness:
  "checkRRAvailable \<lparr>LookPath = (\<lambda>p. None), ReadFile = (\<lambda>p. Some [CHR ''3'', CHR 0x0A])\<rparr> =
     Some ErrBackendUnavailable \<and>
   checkRRAvailable
     \<lparr>LookPath = (\<lambda>p. if p = ''rr'' then Some ''/usr/bin/rr'' else None),
      ReadFile = (\<lambda>p. if p = ''/proc/sys/kernel/perf_event_paranoid''
                       then Some [CHR ''3'', CHR 0x0A] else None)\<rparr> =
     Some (ErrPerfEventParanoid 3) \<and>
   checkRRAvailable
     \<lparr>LookPath = (\<lambda>p. if p = ''rr'' then Some ''/usr/bin/rr'' else None),
      ReadFile = (\<lambda>p. if p = ''/proc/sys/kernel/perf_event_paranoid''
                       then Some [CHR ''1'', CHR 0x0A] else None)\<rparr> = None \<and>
   checkRRAvailable
     \<lparr>LookPath = (\<lambda>p. if p = ''rr'' then Some ''/usr/bin/rr'' else None),
      ReadFile = (\<lambda>p. None)\<rparr> = None"
  using
    checkRRAvailable_result[of "\<lparr>LookPath = (\<lambda>p. None), ReadFile = (\<lambda>p. Some [CHR ''3'', CHR 0x0A])\<rparr>" 0]
    checkRRAvailable_result[of "\<lparr>LookPath = (\<lambda>p. if p = ''rr'' then Some ''/usr/bin/rr'' else None),
      ReadFile = (\<lambda>p. if p = ''/proc/sys/kernel/perf_event_paranoid''
                       then Some [CHR ''3'', CHR 0x0A] else None)\<rparr>" 3]
    checkRRAvailable_result[of "\<lparr>LookPath = (\<lambda>p. if p = ''rr'' then Some ''/usr/bin/rr'' else None),
      ReadFile = (\<lambda>p. if p = ''/proc/sys/kernel/perf_event_paranoid''
                       then Some [CHR ''1'', CHR 0x0A] else None)\<rparr>" 0]
    checkRRAvailable_result[of "\<lparr>LookPath = (\<lambda>p. if p = ''rr'' then Some ''/usr/bin/rr'' else None),
      ReadFile = (\<lambda>p. None)\<rparr>" 0]
  by (simp add: Atoi_three Atoi_one)

section \<open>Record, then replay: the result\<close>

text \<open>
  C6. \<open>Record\<close> returns the empty trace directory with the error when \<open>RecordAsync\<close>
  fails, and otherwise what \<open>run\<close> returns, run error included. \<open>RecordAndReplay\<close>
  runs \<open>Record\<close>; when the trace directory is empty it returns \<open>Record\<close>'s error and
  the state \<open>Record\<close> left, so \<open>Replay\<close> has not run; when it is not empty it returns
  what \<open>Replay\<close> returns for that directory with \<open>deleteOnDetach = true\<close>, next to the
  directory, and \<open>Record\<close>'s error is dropped.
\<close>

theorem RecordAndReplay_result:
  "(\<forall>run e w'. RecordAsync cmd wd quiet redirects w = ((run, Some e), w') \<longrightarrow>
      Record RecordAsync cmd wd quiet redirects w = (('''', Some e), w')) \<and>
   (\<forall>run w'. RecordAsync cmd wd quiet redirects w = ((run, None), w') \<longrightarrow>
      Record RecordAsync cmd wd quiet redirects w = run w') \<and>
   (\<forall>e w'. Record RecordAsync cmd wd quiet redirects w = (('''', e), w') \<longrightarrow>
      RecordAndReplay RecordAsync Replay cmd wd quiet debugInfoDirs redirects w =
        ((None, '''', e), w')) \<and>
   (\<forall>tracedir e w'. Record RecordAsync cmd wd quiet redirects w = ((tracedir, e), w') \<and>
        tracedir \<noteq> '''' \<longrightarrow>
      RecordAndReplay RecordAsync Replay cmd wd quiet debugInfoDirs redirects w =
        (case Replay tracedir quiet True debugInfoDirs w' of
           ((t, e'), w'') \<Rightarrow> ((t, tracedir, e'), w'')))"
  by (simp add: Record_def RecordAndReplay_def)

text \<open>
  C6 on a recording that exits with status 2: with a trace directory the replay runs and
  its nil error is returned; with an empty one the run error is returned and nothing is
  replayed.
\<close>

theorem RecordAndReplay_result_witness:
  "RecordAndReplay (demoRecordAsync ''/tmp/rr/true-0'' (Some (ExitError 2))) demoReplay
       [''true''] ''.'' True []
       \<lparr>Mode = RedirectPathMode, WriterFiles = (None, None, None), Paths = ('''', '''', '''')\<rparr> [] =
     ((Some 1, ''/tmp/rr/true-0'', None),
      [''rr record starts'', ''rr record exits'', ''rr replay /tmp/rr/true-0 (delete on detach)'']) \<and>
   RecordAndReplay (demoRecordAsync '''' (Some (ExitError 2))) demoReplay
       [''true''] ''.'' True []
       \<lparr>Mode = RedirectPathMode, WriterFiles = (None, None, None), Paths = ('''', '''', '''')\<rparr> [] =
     ((None, '''', Some (ExitError 2)), [''rr record starts'', ''rr record exits'']) \<and>
   RecordAndReplay
       (\<lambda>cmd wd quiet redirects w. ((\<lambda>w'. (([], None), w'), Some ErrBackendUnavailable), w))
       demoReplay [''true''] ''.'' True []
       \<lparr>Mode = RedirectPathMode, WriterFiles = (None, None, None), Paths = ('''', '''', '''')\<rparr> [] =
     ((None, '''', Some ErrBackendUnavailable), [])"
proof -
  let ?r = "\<lparr>Mode = RedirectPathMode, WriterFiles = (None, None, None), Paths = ('''', '''', '''')\<rparr>"
  let ?fail = "\<lambda>(cmd :: string list) (wd :: string) (quiet :: bool) (redirects :: Redirect)
      (w :: string list). ((\<lambda>w' :: string list. (('''', None :: goerror option), w'),
        Some ErrBackendUnavailable), w)"
  have a: "demoRecordAsync ''/tmp/rr/true-0'' (Some (ExitError 2)) [''true''] ''.'' True ?r [] =
      ((\<lambda>w'. ((''/tmp/rr/true-0'', Some (ExitError 2)), w' @ [''rr record exits'']), None),
       [''rr record starts''])"
    by (simp add: demoRecordAsync_def)
  have b: "demoRecordAsync '''' (Some (ExitError 2)) [''true''] ''.'' True ?r [] =
      ((\<lambda>w'. (('''', Some (ExitError 2)), w' @ [''rr record exits'']), None),
       [''rr record starts''])"
    by (simp add: demoRecordAsync_def)
  have ne: "''/tmp/rr/true-0'' \<noteq> ''''" by simp
  note t1 = RecordAndReplay_result[of "demoRecordAsync ''/tmp/rr/true-0'' (Some (ExitError 2))"
      "[''true'']" "''.''" True ?r "[]" demoReplay "[]"]
  from t1 a have ra: "Record (demoRecordAsync ''/tmp/rr/true-0'' (Some (ExitError 2)))
      [''true''] ''.'' True ?r [] =
      ((''/tmp/rr/true-0'', Some (ExitError 2)), [''rr record starts'', ''rr record exits''])"
    by simp
  from t1 ra ne
  have 1: "RecordAndReplay (demoRecordAsync ''/tmp/rr/true-0'' (Some (ExitError 2))) demoReplay
       [''true''] ''.'' True [] ?r [] =
     (case demoReplay ''/tmp/rr/true-0'' True True [] [''rr record starts'', ''rr record exits''] of
           ((t, e'), w'') \<Rightarrow> ((t, ''/tmp/rr/true-0'', e'), w''))"
    by blast
  note t2 = RecordAndReplay_result[of "demoRecordAsync '''' (Some (ExitError 2))"
      "[''true'']" "''.''" True ?r "[]" demoReplay "[]"]
  from t2 b have rb: "Record (demoRecordAsync '''' (Some (ExitError 2))) [''true''] ''.'' True ?r [] =
      (('''', Some (ExitError 2)), [''rr record starts'', ''rr record exits''])"
    by simp
  from t2 rb
  have 2: "RecordAndReplay (demoRecordAsync '''' (Some (ExitError 2))) demoReplay
       [''true''] ''.'' True [] ?r [] =
     ((None, '''', Some (ExitError 2)), [''rr record starts'', ''rr record exits''])"
    by blast
  note t3 = RecordAndReplay_result[of ?fail "[''true'']" "''.''" True ?r "[]" demoReplay "[]"]
  from t3 have rc: "Record ?fail [''true''] ''.'' True ?r [] = (('''', Some ErrBackendUnavailable), [])"
    by blast
  from t3 rc
  have 3: "RecordAndReplay ?fail demoReplay [''true''] ''.'' True [] ?r [] =
     ((None, '''', Some ErrBackendUnavailable), [])"
    by blast
  from 1 2 3 show ?thesis by (simp add: demoReplay_def)
qed

section \<open>Redirects: an error return\<close>

text \<open>
  C1. In path mode, with a readable stdin path and a stdout path that cannot be created,
  \<open>openRedirects\<close> returns the error with nil for the three files and nil for
  \<open>closefn\<close>, while the descriptor opened for stdin stays open: the error returns are
  \<open>return nil, nil, nil, nil, err\<close>, so the closure over \<open>toclose\<close> is not handed to
  the caller, and calling the nil \<open>closefn\<close> panics. With an unreadable stdin path
  nothing was opened and \<open>closefn\<close> is nil as well. When both paths can be opened,
  the closure is returned and closes the two descriptors.
\<close>

theorem openRedirects_error_leaks_handle:
  "openRedirects
     \<lparr>Mode = RedirectPathMode, WriterFiles = (None, None, None),
      Paths = (''in.txt'', ''/no/such/dir/out.txt'', '''')\<rparr> False
     \<lparr>can_open = (\<lambda>p. p = ''in.txt''), can_create = (\<lambda>p. False), next_fd = 3, opened = []\<rparr> =
     ((None, None, None, None, Some (OSError ''open'' ''/no/such/dir/out.txt'')),
      \<lparr>can_open = (\<lambda>p. p = ''in.txt''), can_create = (\<lambda>p. False), next_fd = 4,
       opened = [Fd 3]\<rparr>) \<and>
   call_closefn None
     \<lparr>can_open = (\<lambda>p. p = ''in.txt''), can_create = (\<lambda>p. False), next_fd = 4,
      opened = [Fd 3]\<rparr> = None \<and>
   openRedirects
     \<lparr>Mode = RedirectPathMode, WriterFiles = (None, None, None),
      Paths = (''/no/such/in.txt'', ''out.txt'', '''')\<rparr> False
     \<lparr>can_open = (\<lambda>p. p = ''in.txt''), can_create = (\<lambda>p. True), next_fd = 3, opened = []\<rparr> =
     ((None, None, None, None, Some (OSError ''open'' ''/no/such/in.txt'')),
      \<lparr>can_open = (\<lambda>p. p = ''in.txt''), can_create = (\<lambda>p. True), next_fd = 3,
       opened = []\<rparr>) \<and>
   openRedirects
     \<lparr>Mode = RedirectPathMode, WriterFiles = (None, None, None),
      Paths = (''in.txt'', ''out.txt'', '''')\<rparr> False
     \<lparr>can_open = (\<lambda>p. p = ''in.txt''), can_create = (\<lambda>p. True), next_fd = 3, opened = []\<rparr> =
     ((Some (Fd 3), Some (Fd 4), Some Stderr, Some [Fd 3, Fd 4], None),
      \<lparr>can_open = (\<lambda>p. p = ''in.txt''), can_create = (\<lambda>p. True), next_fd = 5,
       opened = [Fd 3, Fd 4]\<rparr>)"
  by (simp add: openRedirects_def create_def os_Open_def os_Create_def at0_def at1_def at2_def
      call_closefn_def)

section \<open>Trace directory cleanup: the result\<close>

lemma Join_entryName: "isEntry dir p \<Longrightarrow> Join dir (entryName dir p) = p"
proof -
  assume "isEntry dir p"
  then have "take (length dir + 1) p = dir @ ''/''"
    by (simp add: isEntry_def HasPrefix_def)
  then have "(dir @ ''/'') @ drop (length dir + 1) p = p"
    by (metis append_take_drop_id)
  then show ?thesis by (simp add: Join_def entryName_def)
qed

lemma Join_inject: "Join dir a = Join dir b \<longleftrightarrow> a = b"
  by (simp add: Join_def)

lemma not_isEntry_self: "\<not> isEntry dir dir"
  by (simp add: isEntry_def HasPrefix_def)

lemma listing_paths:
  "set (map (\<lambda>fi. Join dir (Name fi)) (listing fs dir)) =
     {p. p \<in> fst ` set (nodes fs) \<and> isEntry dir p}"
proof -
  have "map (\<lambda>fi. Join dir (Name fi)) (listing fs dir) =
      map fst (filter (\<lambda>n. isEntry dir (fst n)) (nodes fs))"
    by (simp add: listing_def Join_entryName cong: map_cong)
  then show ?thesis by auto
qed

lemma listing_IsDir:
  "list_ex IsDir (listing fs dir) \<longleftrightarrow> (\<exists>p. (p, True) \<in> set (nodes fs) \<and> isEntry dir p)"
  by (auto simp add: listing_def list_ex_iff)

lemma listing_distinct:
  assumes "distinct (map fst (nodes fs))"
  shows "distinct (map Name (listing fs dir))"
proof -
  have d: "distinct (map fst (filter (\<lambda>n. isEntry dir (fst n)) (nodes fs)))"
    using assms by (rule distinct_map_filter)
  have i: "inj_on (entryName dir) (set (map fst (filter (\<lambda>n. isEntry dir (fst n)) (nodes fs))))"
  proof (rule inj_onI)
    fix x y
    assume x: "x \<in> set (map fst (filter (\<lambda>n. isEntry dir (fst n)) (nodes fs)))"
      and y: "y \<in> set (map fst (filter (\<lambda>n. isEntry dir (fst n)) (nodes fs)))"
      and e: "entryName dir x = entryName dir y"
    from x have "isEntry dir x" by auto
    moreover from y have "isEntry dir y" by auto
    ultimately show "x = y" using e Join_entryName by metis
  qed
  have "map Name (listing fs dir) =
      map (entryName dir) (map fst (filter (\<lambda>n. isEntry dir (fst n)) (nodes fs)))"
    by (simp add: listing_def)
  then show ?thesis using d i by (simp only: distinct_map)
qed

lemma removeEntries_result:
  "distinct (map Name fis) \<Longrightarrow>
   \<forall>fi\<in>set fis. Join dir (Name fi) \<in> fst ` set (nodes fs) \<Longrightarrow>
   \<forall>fi\<in>set fis. (Join dir (Name fi), True) \<notin> set (nodes fs) \<Longrightarrow>
   (fst (removeEntries fs dir fis) = None \<longleftrightarrow>
      (\<forall>fi\<in>set fis. Join dir (Name fi) \<notin> set (locked fs))) \<and>
   snd (removeEntries fs dir fis) =
     fs\<lparr>nodes := filter (\<lambda>n. fst n \<notin> set (map (\<lambda>fi. Join dir (Name fi))
            (takeWhile (\<lambda>fi. Join dir (Name fi) \<notin> set (locked fs)) fis))) (nodes fs)\<rparr>"
proof (induction fis arbitrary: fs)
  case Nil
  then show ?case by simp
next
  case (Cons fi fis)
  let ?p = "Join dir (Name fi)"
  from Cons.prems have inp: "?p \<in> set (map fst (nodes fs))" and nd: "(?p, True) \<notin> set (nodes fs)"
    by auto
  show ?case
  proof (cases "?p \<in> set (locked fs)")
    case True
    with inp have "fs_Remove fs ?p = (Some (OSError ''remove'' ?p), fs)"
      by (simp add: fs_Remove_def)
    with True show ?thesis by simp
  next
    case False
    let ?fs = "fs\<lparr>nodes := filter (\<lambda>n. fst n \<noteq> ?p) (nodes fs)\<rparr>"
    from False inp nd have r: "fs_Remove fs ?p = (None, ?fs)"
      by (simp add: fs_Remove_def)
    have d: "distinct (map Name fis)" using Cons.prems(1) by simp
    have neq: "\<forall>f\<in>set fis. Join dir (Name f) \<noteq> ?p"
    proof
      fix f assume "f \<in> set fis"
      then have "Name f \<in> set (map Name fis)" by simp
      moreover from Cons.prems(1) have "Name fi \<notin> set (map Name fis)" by simp
      ultimately have "Name f \<noteq> Name fi" by metis
      then show "Join dir (Name f) \<noteq> ?p" by (simp add: Join_inject)
    qed
    have a: "\<forall>f\<in>set fis. Join dir (Name f) \<in> fst ` set (nodes ?fs)"
      using Cons.prems(2) neq by force
    have b: "\<forall>f\<in>set fis. (Join dir (Name f), True) \<notin> set (nodes ?fs)"
      using Cons.prems(3) by simp
    from Cons.IH[OF d a b] r False show ?thesis
      by (simp add: conj_commute cong: conj_cong)
  qed
qed

lemma filter_not_entry:
  "filter (\<lambda>n. fst n \<notin> set (map (\<lambda>fi. Join dir (Name fi)) (listing fs dir))) (nodes fs) =
   filter (\<lambda>n. \<not> isEntry dir (fst n)) (nodes fs)"
  by (rule filter_cong) (auto simp only: listing_paths)

lemma takeWhile_all: "\<forall>x\<in>set xs. P x \<Longrightarrow> takeWhile P xs = xs"
  by (induction xs) auto

lemma safeRemoveAll_only_files:
  assumes dir: "(dir, True) \<in> set (nodes fs)"
    and dist: "distinct (map fst (nodes fs))"
    and files: "\<forall>p. isEntry dir p \<longrightarrow> (p, True) \<notin> set (nodes fs)"
  shows "safeRemoveAll fs dir =
     (if \<exists>fi\<in>set (listing fs dir). Join dir (Name fi) \<in> set (locked fs) then
        fs\<lparr>nodes := filter (\<lambda>n. fst n \<notin> set (map (\<lambda>fi. Join dir (Name fi))
            (takeWhile (\<lambda>fi. Join dir (Name fi) \<notin> set (locked fs)) (listing fs dir)))) (nodes fs)\<rparr>
      else if dir \<in> set (locked fs) then
        fs\<lparr>nodes := filter (\<lambda>n. \<not> isEntry dir (fst n)) (nodes fs)\<rparr>
      else fs\<lparr>nodes := filter (\<lambda>n. fst n \<noteq> dir \<and> \<not> isEntry dir (fst n)) (nodes fs)\<rparr>)"
proof -
  let ?fis = "listing fs dir"
  from dir have o: "fs_Open fs dir = None"
    by (force simp add: fs_Open_def)
  from dir have rd: "fs_Readdir fs dir = Inr ?fis"
    by (simp add: fs_Readdir_def)
  from files have nodir: "\<not> list_ex IsDir ?fis"
    unfolding listing_IsDir by blast
  have a: "\<forall>fi\<in>set ?fis. Join dir (Name fi) \<in> fst ` set (nodes fs)"
    using listing_paths[of dir fs] by auto
  have b: "\<forall>fi\<in>set ?fis. (Join dir (Name fi), True) \<notin> set (nodes fs)"
  proof
    fix fi assume "fi \<in> set ?fis"
    then have "Join dir (Name fi) \<in> set (map (\<lambda>fi. Join dir (Name fi)) ?fis)" by simp
    then have "isEntry dir (Join dir (Name fi))" by (simp only: listing_paths) simp
    with files show "(Join dir (Name fi), True) \<notin> set (nodes fs)" by simp
  qed
  note re = removeEntries_result[OF listing_distinct[OF dist] a b]
  obtain e fs' where r: "removeEntries fs dir ?fis = (e, fs')" by (cases "removeEntries fs dir ?fis")
  from re r have e: "e = None \<longleftrightarrow> (\<forall>fi\<in>set ?fis. Join dir (Name fi) \<notin> set (locked fs))"
    and fs': "fs' = fs\<lparr>nodes := filter (\<lambda>n. fst n \<notin> set (map (\<lambda>fi. Join dir (Name fi))
            (takeWhile (\<lambda>fi. Join dir (Name fi) \<notin> set (locked fs)) ?fis))) (nodes fs)\<rparr>"
    by simp_all
  have s: "safeRemoveAll fs dir = (case e of Some x \<Rightarrow> fs' | None \<Rightarrow> snd (fs_Remove fs' dir))"
    using o rd nodir r by (simp add: safeRemoveAll_def split: option.splits)
  show ?thesis
  proof (cases "\<exists>fi\<in>set ?fis. Join dir (Name fi) \<in> set (locked fs)")
    case True
    with e have "e \<noteq> None" by blast
    with s fs' True show ?thesis by (auto simp del: set_map)
  next
    case False
    with e have en: "e = None" by blast
    from False have "takeWhile (\<lambda>fi. Join dir (Name fi) \<notin> set (locked fs)) ?fis = ?fis"
      by (intro takeWhile_all) blast
    with fs' have f2: "fs' = fs\<lparr>nodes := filter (\<lambda>n. \<not> isEntry dir (fst n)) (nodes fs)\<rparr>"
      by (simp only: filter_not_entry)
    have in': "dir \<in> set (map fst (nodes fs'))"
      using dir not_isEntry_self[of dir] by (force simp add: f2)
    have l': "listing fs' dir = []"
      by (simp add: f2 listing_def)
    have lk: "locked fs' = locked fs" by (simp add: f2)
    have "snd (fs_Remove fs' dir) =
        (if dir \<in> set (locked fs) then fs'
         else fs'\<lparr>nodes := filter (\<lambda>n. fst n \<noteq> dir) (nodes fs')\<rparr>)"
      using in' l' lk by (simp add: fs_Remove_def)
    with s en False f2 show ?thesis by (simp add: conj_commute)
  qed
qed

text \<open>
  C3. \<open>safeRemoveAll\<close> changes nothing when the directory has an entry that is a
  directory. On an existing directory whose entries are all regular files (paths being
  unique): if no removal is refused, every entry and then the directory are removed and
  nothing else; if the removal of an entry is refused, the entries listed before it are
  removed and the loop returns there, leaving that entry, the later ones and the
  directory; if only the removal of the directory is refused, every entry is removed and
  the directory stays.
\<close>

theorem safeRemoveAll_result:
  "((\<exists>p. (p, True) \<in> set (nodes fs) \<and> isEntry dir p) \<longrightarrow> safeRemoveAll fs dir = fs) \<and>
   ((dir, True) \<in> set (nodes fs) \<and> distinct (map fst (nodes fs)) \<and>
    (\<forall>p. isEntry dir p \<longrightarrow> (p, True) \<notin> set (nodes fs)) \<longrightarrow>
      ((\<forall>fi\<in>set (listing fs dir). Join dir (Name fi) \<notin> set (locked fs)) \<and> dir \<notin> set (locked fs) \<longrightarrow>
         safeRemoveAll fs dir =
           fs\<lparr>nodes := filter (\<lambda>n. fst n \<noteq> dir \<and> \<not> isEntry dir (fst n)) (nodes fs)\<rparr>) \<and>
      ((\<forall>fi\<in>set (listing fs dir). Join dir (Name fi) \<notin> set (locked fs)) \<and> dir \<in> set (locked fs) \<longrightarrow>
         safeRemoveAll fs dir =
           fs\<lparr>nodes := filter (\<lambda>n. \<not> isEntry dir (fst n)) (nodes fs)\<rparr>) \<and>
      ((\<exists>fi\<in>set (listing fs dir). Join dir (Name fi) \<in> set (locked fs)) \<longrightarrow>
         safeRemoveAll fs dir =
           fs\<lparr>nodes := filter (\<lambda>n. fst n \<notin> set (map (\<lambda>fi. Join dir (Name fi))
             (takeWhile (\<lambda>fi. Join dir (Name fi) \<notin> set (locked fs)) (listing fs dir))))
             (nodes fs)\<rparr>))"
proof (rule conjI)
  show "(\<exists>p. (p, True) \<in> set (nodes fs) \<and> isEntry dir p) \<longrightarrow> safeRemoveAll fs dir = fs"
    by (simp add: safeRemoveAll_def listing_IsDir[symmetric] fs_Readdir_def
        split: option.splits sum.splits)
  show "(dir, True) \<in> set (nodes fs) \<and> distinct (map fst (nodes fs)) \<and>
    (\<forall>p. isEntry dir p \<longrightarrow> (p, True) \<notin> set (nodes fs)) \<longrightarrow>
      ((\<forall>fi\<in>set (listing fs dir). Join dir (Name fi) \<notin> set (locked fs)) \<and> dir \<notin> set (locked fs) \<longrightarrow>
         safeRemoveAll fs dir =
           fs\<lparr>nodes := filter (\<lambda>n. fst n \<noteq> dir \<and> \<not> isEntry dir (fst n)) (nodes fs)\<rparr>) \<and>
      ((\<forall>fi\<in>set (listing fs dir). Join dir (Name fi) \<notin> set (locked fs)) \<and> dir \<in> set (locked fs) \<longrightarrow>
         safeRemoveAll fs dir =
           fs\<lparr>nodes := filter (\<lambda>n. \<not> isEntry dir (fst n)) (nodes fs)\<rparr>) \<and>
      ((\<exists>fi\<in>set (listing fs dir). Join dir (Name fi) \<in> set (locked fs)) \<longrightarrow>
         safeRemoveAll fs dir =
           fs\<lparr>nodes := filter (\<lambda>n. fst n \<notin> set (map (\<lambda>fi. Join dir (Name fi))
             (takeWhile (\<lambda>fi. Join dir (Name fi) \<notin> set (locked fs)) (listing fs dir))))
             (nodes fs)\<rparr>)"
  proof (rule impI, elim conjE)
    assume a: "(dir, True) \<in> set (nodes fs)" "distinct (map fst (nodes fs))"
      "\<forall>p. isEntry dir p \<longrightarrow> (p, True) \<notin> set (nodes fs)"
    note s = safeRemoveAll_only_files[OF a]
    show "((\<forall>fi\<in>set (listing fs dir). Join dir (Name fi) \<notin> set (locked fs)) \<and> dir \<notin> set (locked fs) \<longrightarrow>
         safeRemoveAll fs dir =
           fs\<lparr>nodes := filter (\<lambda>n. fst n \<noteq> dir \<and> \<not> isEntry dir (fst n)) (nodes fs)\<rparr>) \<and>
      ((\<forall>fi\<in>set (listing fs dir). Join dir (Name fi) \<notin> set (locked fs)) \<and> dir \<in> set (locked fs) \<longrightarrow>
         safeRemoveAll fs dir =
           fs\<lparr>nodes := filter (\<lambda>n. \<not> isEntry dir (fst n)) (nodes fs)\<rparr>) \<and>
      ((\<exists>fi\<in>set (listing fs dir). Join dir (Name fi) \<in> set (locked fs)) \<longrightarrow>
         safeRemoveAll fs dir =
           fs\<lparr>nodes := filter (\<lambda>n. fst n \<notin> set (map (\<lambda>fi. Join dir (Name fi))
             (takeWhile (\<lambda>fi. Join dir (Name fi) \<notin> set (locked fs)) (listing fs dir))))
             (nodes fs)\<rparr>)"
      unfolding s by (simp del: set_map)
  qed
qed

text \<open>
  C3 on \<open>/tmp/rr\<close>, which holds the trace directory \<open>/tmp/rr/true-0\<close>, and on that
  trace directory with nothing refused, with the directory refused and with its second
  file refused.
\<close>

theorem safeRemoveAll_result_witness:
  "safeRemoveAll
     \<lparr>nodes = [(''/tmp/rr'', True), (''/tmp/rr/true-0'', True), (''/tmp/rr/true-0/data'', False),
               (''/tmp/rr/true-0/version'', False), (''/tmp/rr/latest-trace'', False)],
      locked = []\<rparr> ''/tmp/rr'' =
     \<lparr>nodes = [(''/tmp/rr'', True), (''/tmp/rr/true-0'', True), (''/tmp/rr/true-0/data'', False),
               (''/tmp/rr/true-0/version'', False), (''/tmp/rr/latest-trace'', False)],
      locked = []\<rparr> \<and>
   safeRemoveAll
     \<lparr>nodes = [(''/tmp/rr'', True), (''/tmp/rr/true-0'', True), (''/tmp/rr/true-0/data'', False),
               (''/tmp/rr/true-0/version'', False), (''/tmp/rr/latest-trace'', False)],
      locked = []\<rparr> ''/tmp/rr/true-0'' =
     \<lparr>nodes = [(''/tmp/rr'', True), (''/tmp/rr/latest-trace'', False)], locked = []\<rparr> \<and>
   safeRemoveAll
     \<lparr>nodes = [(''/tmp/rr'', True), (''/tmp/rr/true-0'', True), (''/tmp/rr/true-0/data'', False),
               (''/tmp/rr/true-0/version'', False), (''/tmp/rr/latest-trace'', False)],
      locked = [''/tmp/rr/true-0'']\<rparr> ''/tmp/rr/true-0'' =
     \<lparr>nodes = [(''/tmp/rr'', True), (''/tmp/rr/true-0'', True), (''/tmp/rr/latest-trace'', False)],
      locked = [''/tmp/rr/true-0'']\<rparr> \<and>
   safeRemoveAll
     \<lparr>nodes = [(''/tmp/rr'', True), (''/tmp/rr/true-0'', True), (''/tmp/rr/true-0/data'', False),
               (''/tmp/rr/true-0/version'', False), (''/tmp/rr/latest-trace'', False)],
      locked = [''/tmp/rr/true-0/version'']\<rparr> ''/tmp/rr/true-0'' =
     \<lparr>nodes = [(''/tmp/rr'', True), (''/tmp/rr/true-0'', True), (''/tmp/rr/true-0/version'', False),
               (''/tmp/rr/latest-trace'', False)],
      locked = [''/tmp/rr/true-0/version'']\<rparr>"
proof -
  let ?ns = "[(''/tmp/rr'', True), (''/tmp/rr/true-0'', True), (''/tmp/rr/true-0/data'', False),
               (''/tmp/rr/true-0/version'', False), (''/tmp/rr/latest-trace'', False)]"
  let ?d = "''/tmp/rr/true-0''"
  let ?v = "''/tmp/rr/true-0/version''"
  have sub: "\<exists>p. (p, True) \<in> set (nodes \<lparr>nodes = ?ns, locked = []\<rparr>) \<and> isEntry ''/tmp/rr'' p"
    by (rule exI[of _ "''/tmp/rr/true-0''"]) (simp add: isEntry_def HasPrefix_def entryName_def)
  have e1: "\<not> isEntry ?d ''/tmp/rr''" and e2: "\<not> isEntry ?d ?d"
    and e3: "isEntry ?d ''/tmp/rr/true-0/data''" and e4: "isEntry ?d ?v"
    and e5: "\<not> isEntry ?d ''/tmp/rr/latest-trace''"
    by (simp_all add: isEntry_def HasPrefix_def entryName_def)
  have wf: "(?d, True) \<in> set (nodes \<lparr>nodes = ?ns, locked = lk\<rparr>) \<and>
      distinct (map fst (nodes \<lparr>nodes = ?ns, locked = lk\<rparr>)) \<and>
      (\<forall>p. isEntry ?d p \<longrightarrow> (p, True) \<notin> set (nodes \<lparr>nodes = ?ns, locked = lk\<rparr>))" for lk
    using e1 e2 by auto
  have ls: "listing \<lparr>nodes = ?ns, locked = lk\<rparr> ?d =
      [\<lparr>Name = ''data'', IsDir = False\<rparr>, \<lparr>Name = ''version'', IsDir = False\<rparr>]" for lk
    by (simp add: listing_def e1 e2 e3 e4 e5) (simp add: entryName_def)
  have j: "Join ?d ''data'' = ''/tmp/rr/true-0/data''" "Join ?d ''version'' = ?v"
    by (simp_all add: Join_def)
  have 1: "safeRemoveAll \<lparr>nodes = ?ns, locked = []\<rparr> ''/tmp/rr'' = \<lparr>nodes = ?ns, locked = []\<rparr>"
    using safeRemoveAll_result[of "\<lparr>nodes = ?ns, locked = []\<rparr>" "''/tmp/rr''"] sub by blast
  have h2: "(\<forall>fi\<in>set (listing \<lparr>nodes = ?ns, locked = []\<rparr> ?d).
        Join ?d (Name fi) \<notin> set (locked \<lparr>nodes = ?ns, locked = []\<rparr>)) \<and>
      ?d \<notin> set (locked \<lparr>nodes = ?ns, locked = []\<rparr>)"
    by simp
  have 2: "safeRemoveAll \<lparr>nodes = ?ns, locked = []\<rparr> ?d =
      \<lparr>nodes = [(''/tmp/rr'', True), (''/tmp/rr/latest-trace'', False)], locked = []\<rparr>"
    unfolding safeRemoveAll_result[of "\<lparr>nodes = ?ns, locked = []\<rparr>" ?d,
        THEN conjunct2, THEN mp, OF wf, THEN conjunct1, THEN mp, OF h2]
    by (simp add: e1 e2 e3 e4 e5)
  have h3: "(\<forall>fi\<in>set (listing \<lparr>nodes = ?ns, locked = [?d]\<rparr> ?d).
        Join ?d (Name fi) \<notin> set (locked \<lparr>nodes = ?ns, locked = [?d]\<rparr>)) \<and>
      ?d \<in> set (locked \<lparr>nodes = ?ns, locked = [?d]\<rparr>)"
    by (simp add: ls j)
  have 3: "safeRemoveAll \<lparr>nodes = ?ns, locked = [?d]\<rparr> ?d =
      \<lparr>nodes = [(''/tmp/rr'', True), (''/tmp/rr/true-0'', True), (''/tmp/rr/latest-trace'', False)],
       locked = [?d]\<rparr>"
    unfolding safeRemoveAll_result[of "\<lparr>nodes = ?ns, locked = [?d]\<rparr>" ?d,
        THEN conjunct2, THEN mp, OF wf, THEN conjunct2, THEN conjunct1, THEN mp, OF h3]
    by (simp add: e1 e2 e3 e4 e5)
  have h4: "\<exists>fi\<in>set (listing \<lparr>nodes = ?ns, locked = [?v]\<rparr> ?d).
        Join ?d (Name fi) \<in> set (locked \<lparr>nodes = ?ns, locked = [?v]\<rparr>)"
    by (simp add: ls j)
  have 4: "safeRemoveAll \<lparr>nodes = ?ns, locked = [?v]\<rparr> ?d =
      \<lparr>nodes = [(''/tmp/rr'', True), (''/tmp/rr/true-0'', True), (''/tmp/rr/true-0/version'', False),
               (''/tmp/rr/latest-trace'', False)],
      locked = [?v]\<rparr>"
    unfolding safeRemoveAll_result[of "\<lparr>nodes = ?ns, locked = [?v]\<rparr>" ?d,
        THEN conjunct2, THEN mp, OF wf, THEN conjunct2, THEN conjunct2, THEN mp, OF h4]
    by (simp add: ls j)
  from 1 2 3 4 show ?thesis by blast
qed

text \<open>
  C3 as stated, "either every file entry plus the directory are removed, or nothing is
  removed", fails when a removal is refused part of the way: the directory holds only
  regular files, the first is removed, the second and the directory stay.
\<close>

theorem safeRemoveAll_all_or_nothing_counterexample:
  "\<not> list_ex IsDir (listing
     \<lparr>nodes = [(''/tmp/rr'', True), (''/tmp/rr/true-0'', True), (''/tmp/rr/true-0/data'', False),
               (''/tmp/rr/true-0/version'', False), (''/tmp/rr/latest-trace'', False)],
      locked = [''/tmp/rr/true-0/version'']\<rparr> ''/tmp/rr/true-0'') \<and>
   safeRemoveAll
     \<lparr>nodes = [(''/tmp/rr'', True), (''/tmp/rr/true-0'', True), (''/tmp/rr/true-0/data'', False),
               (''/tmp/rr/true-0/version'', False), (''/tmp/rr/latest-trace'', False)],
      locked = [''/tmp/rr/true-0/version'']\<rparr> ''/tmp/rr/true-0'' =
     \<lparr>nodes = [(''/tmp/rr'', True), (''/tmp/rr/true-0'', True), (''/tmp/rr/true-0/version'', False),
               (''/tmp/rr/latest-trace'', False)],
      locked = [''/tmp/rr/true-0/version'']\<rparr>"
  by (simp add: safeRemoveAll_def fs_Open_def fs_Readdir_def fs_Remove_def listing_def isEntry_def
      HasPrefix_def entryName_def Join_def)

end
